theory Spec2Isabelle
  imports Main
begin

section \<open>Values shared by the document session and the editor binding\<close>

text \<open>
  JavaScript strings are sequences of code units; they are modelled as \<open>string\<close>, one
  \<open>char\<close> per code unit, so that \<open>length\<close> is the \<open>.length\<close> of the source. Positions and
  counts are JavaScript numbers holding integers; they are modelled as \<open>int\<close>.
  An exception is a value of \<open>js_error\<close>: the constructor is the JavaScript error class,
  the argument its message.
\<close>

datatype js_error = Error string | RangeError string | TypeError string

text \<open>
  The \<open>content\<close> field of a document is read in the source through
  \<^verbatim>\<open>typeof doc.content === 'string' ? doc.content : doc.content.toString()\<close>:
  it is either a string or an object whose \<open>toString()\<close> gives the text.
\<close>

datatype content_val = CString string | CObject string

fun content_text :: "content_val \<Rightarrow> string" where
  "content_text (CString s) = s"
| "content_text (CObject s) = s"

record doc_metadata =
  created :: int
  version :: int

text \<open>A document snapshot; \<open>None\<close> is JavaScript's \<open>undefined\<close> field.\<close>

record am_doc =
  content :: "content_val option"
  metadata :: "doc_metadata option"

text \<open>
  A patch as the change handler reads it: \<open>patch.path\<close> (an array of property names and
  indices), \<open>patch.action\<close>, \<open>patch.length\<close> and \<open>patch.value\<close> (\<open>None\<close> when absent).
\<close>

datatype path_elem = PStr string | PNum int

record patch =
  path :: "path_elem list"
  action :: string
  length_p :: "int option"
  value_p :: "string option"

text \<open>
  The callbacks registered with \<open>handle.on('change', cb)\<close> are closures; each evaluation
  of the arrow function in \<open>AutomergeBinding.attach\<close> or in
  \<open>AutomergeSync._setupChangeHandler\<close> creates a new object, identified here by the
  number of closures its owner had created before.
\<close>

datatype listener = BindingHandler nat | SessionHandler nat

text \<open>
  Modelled from the spec: the document handle of the CRDT engine (section 6 of the
  specification: \<open>handle.doc()\<close>, \<open>handle.change(mutatorFn)\<close>, \<open>handle.on/off('change', cb)\<close>).
  \<open>doc = None\<close> is a handle that is not ready. \<open>listeners\<close> is the list of registered
  change callbacks, in registration order.
\<close>

record doc_handle =
  documentId :: string
  doc :: "am_doc option"
  listeners :: "listener list"

text \<open>\<open>handle.on('change', cb)\<close> and \<open>handle.off('change', cb)\<close>.\<close>

definition handle_on :: "listener \<Rightarrow> doc_handle \<Rightarrow> doc_handle" where
  "handle_on cb h = h\<lparr>listeners := listeners h @ [cb]\<rparr>"

definition handle_off :: "listener \<Rightarrow> doc_handle \<Rightarrow> doc_handle" where
  "handle_off cb h = h\<lparr>listeners := filter (\<lambda>l. l \<noteq> cb) (listeners h)\<rparr>"

text \<open>
  Modelled from the spec: the splice primitive of the CRDT engine,
  \<open>Automerge.splice(d, ['content'], index, deleteCount, insertedText)\<close>: "replace a
  contiguous range with new content" (glossary), with \<open>index \<ge> 0\<close>, \<open>deleteCount \<ge> 0\<close> and
  \<open>index + deleteCount\<close> not beyond the length of the text, the engine being the
  enforcement point (section 4.3).
\<close>

definition Automerge_splice :: "am_doc \<Rightarrow> int \<Rightarrow> int \<Rightarrow> string \<Rightarrow> js_error + am_doc" where
  "Automerge_splice d index deleteCount insertText =
     (case content d of
        None \<Rightarrow> Inl (RangeError ''content is not a text'')
      | Some c \<Rightarrow>
          (let t = content_text c in
           if index < 0 \<or> deleteCount < 0 \<or> int (length t) < index + deleteCount
           then Inl (RangeError ''splice out of range'')
           else Inr (d\<lparr>content :=
                  Some (CString (take (nat index) t @ insertText
                                 @ drop (nat (index + deleteCount)) t))\<rparr>)))"

text \<open>
  The two mutator callbacks that the source passes to \<open>handle.change\<close>:
  \<^item> \<open>Splice p n s\<close> is \<^verbatim>\<open>d => { Automerge.splice(d, ['content'], p, n, s) }\<close>
    (\<open>applyLocalChange\<close> and \<open>applyLocalEdit\<close>);
  \<^item> \<open>InitDocument now\<close> is
    \<^verbatim>\<open>d => { d.content = ""; d.metadata = { created: Date.now(), version: 1 } }\<close>
    (\<open>createDocument\<close>), \<open>now\<close> being the value of \<open>Date.now()\<close>.
\<close>

datatype mutation = Splice int int string | InitDocument int

fun apply_mutation :: "mutation \<Rightarrow> am_doc \<Rightarrow> js_error + am_doc" where
  "apply_mutation (Splice position deleteCount insertText) d =
     Automerge_splice d position deleteCount insertText"
| "apply_mutation (InitDocument now) d =
     Inr (d\<lparr>content := Some (CString ''''),
            metadata := Some \<lparr>created = now, version = 1\<rparr>\<rparr>)"

text \<open>
  Modelled from the spec: the change descriptors that the engine hands to the change
  callbacks for a mutation. For a splice it is the patch of section 8,
  \<open>{path: ['content', i], action: 'splice', length: d, value: s}\<close>.
\<close>

fun mutation_patches :: "mutation \<Rightarrow> patch list" where
  "mutation_patches (Splice position deleteCount insertText) =
     [\<lparr>path = [PStr ''content'', PNum position], action = ''splice'',
       length_p = Some deleteCount, value_p = Some insertText\<rparr>]"
| "mutation_patches (InitDocument now) =
     [\<lparr>path = [PStr ''content''], action = ''put'', length_p = None, value_p = Some ''''\<rparr>,
      \<lparr>path = [PStr ''metadata''], action = ''put'', length_p = None, value_p = None\<rparr>]"


section \<open>The editor binding (\<open>src/codemirror-binding.js\<close>)\<close>

subsection \<open>The Editor Surface\<close>

record selection =
  anchor :: int
  head :: int

text \<open>One \<open>{from, to, insert}\<close> object of a dispatched transaction.\<close>

record change_spec =
  from_c :: int
  to_c :: int
  insert_c :: string

text \<open>
  The argument of \<open>view.dispatch\<close>: \<open>changes\<close> (one object or an array of them, here always
  a list), the optional \<open>selection\<close>, and whether \<open>annotations: isRemoteChange.of(true)\<close>
  is given.
\<close>

record transaction_spec =
  changes :: "change_spec list"
  selection_t :: "selection option"
  remote :: bool

text \<open>
  The editor view: \<open>view.state.doc.toString()\<close>, \<open>view.state.selection.main\<close>, and the
  sequence of calls of \<open>view.dispatch\<close> made on it.
\<close>

record editor_view =
  state_doc :: string
  state_selection :: selection
  dispatched :: "transaction_spec list"

text \<open>
  How the widget turns a dispatched transaction into its next state is the widget's own
  business (it may also throw, as on a range outside its document); it is a parameter
  of every operation that may dispatch. The widget reports a transaction dispatched
  with the remote annotation back to \<open>applyLocalChange\<close>, which returns \<open>false\<close> on
  it at once and changes nothing; that call is left out of \<open>view_dispatch\<close>.
\<close>

type_synonym surface = "transaction_spec \<Rightarrow> string \<times> selection \<Rightarrow> js_error + string \<times> selection"

definition view_dispatch :: "surface \<Rightarrow> transaction_spec \<Rightarrow> editor_view \<Rightarrow> (js_error + unit) \<times> editor_view" where
  "view_dispatch cm tr v =
     (case cm tr (state_doc v, state_selection v) of
        Inl e \<Rightarrow> (Inl e, v\<lparr>dispatched := dispatched v @ [tr]\<rparr>)
      | Inr (t, s) \<Rightarrow>
          (Inr (), v\<lparr>state_doc := t, state_selection := s, dispatched := dispatched v @ [tr]\<rparr>))"

subsection \<open>The binding object\<close>

datatype console_msg =
    WarnAlreadyAttached
  | LogAttached
  | LogDetached
  | LogSpliceToAutomerge int int nat
  | LogSkippingEcho
  | WarnContentUndefined
  | LogRemoteSplice int int nat
  | LogRemoteFullSync nat
  | LogLoadedInitial nat

text \<open>
  The fields of \<open>AutomergeBinding\<close>, with the objects it refers to (\<open>view\<close>, \<open>handle\<close>) held
  in the record, the console output of its methods, and \<open>closures\<close>, the number of change
  handlers \<open>attach\<close> has created so far.
\<close>

record binding =
  view :: editor_view
  handle :: doc_handle
  isSyncingLocalChange :: bool
  changeHandler :: "listener option"
  attached :: bool
  console :: "console_msg list"
  closures :: nat

definition console_log :: "console_msg \<Rightarrow> binding \<Rightarrow> binding" where
  "console_log m b = b\<lparr>console := console b @ [m]\<rparr>"

text \<open>The constructor.\<close>

definition new_binding :: "editor_view \<Rightarrow> doc_handle \<Rightarrow> binding" where
  "new_binding v h =
     \<lparr>view = v, handle = h, isSyncingLocalChange = False, changeHandler = None,
      attached = False, console = [], closures = 0\<rparr>"

definition attach :: "binding \<Rightarrow> binding" where
  "attach b =
     (if attached b then console_log WarnAlreadyAttached b
      else
        (let cb = BindingHandler (closures b);
             b1 = b\<lparr>changeHandler := Some cb, closures := Suc (closures b)\<rparr>;
             b2 = b1\<lparr>handle := handle_on cb (handle b1)\<rparr>;
             b3 = b2\<lparr>attached := True\<rparr>
         in console_log LogAttached b3))"

definition detach :: "binding \<Rightarrow> binding" where
  "detach b =
     (if \<not> attached b then b
      else
        (let b1 = (case changeHandler b of
                     Some cb \<Rightarrow> b\<lparr>handle := handle_off cb (handle b), changeHandler := None\<rparr>
                   | None \<Rightarrow> b);
             b2 = b1\<lparr>attached := False\<rparr>
         in console_log LogDetached b2))"

text \<open>\<open>this.view.dispatch(tr)\<close> on the binding's view.\<close>

definition dispatch :: "surface \<Rightarrow> transaction_spec \<Rightarrow> binding \<Rightarrow> (js_error + unit) \<times> binding" where
  "dispatch cm tr b =
     (case view_dispatch cm tr (view b) of (r, v) \<Rightarrow> (r, b\<lparr>view := v\<rparr>))"

text \<open>
  \<open>_applyFullSync(doc)\<close>. The caller has checked \<open>doc.content !== undefined\<close>; on an
  undefined content \<open>doc.content.toString()\<close> is a TypeError.
\<close>

definition applyFullSync :: "surface \<Rightarrow> binding \<Rightarrow> am_doc \<Rightarrow> (js_error + unit) \<times> binding" where
  "applyFullSync cm b d =
     (case content d of
        None \<Rightarrow> (Inl (TypeError ''doc.content is undefined''), b)
      | Some c \<Rightarrow>
          (let newText = (case c of CString s \<Rightarrow> s | CObject s \<Rightarrow> s);
               oldText = state_doc (view b)
           in if newText \<noteq> oldText then
                (let sel = state_selection (view b);
                     newAnchor = min (anchor sel) (int (length newText));
                     newHead = min (head sel) (int (length newText))
                 in case dispatch cm
                      \<lparr>changes = [\<lparr>from_c = 0, to_c = int (length oldText), insert_c = newText\<rparr>],
                       selection_t = Some \<lparr>anchor = newAnchor, head = newHead\<rparr>,
                       remote = True\<rparr> b of
                      (Inl e, b') \<Rightarrow> (Inl e, b')
                    | (Inr u, b') \<Rightarrow> (Inr (), console_log (LogRemoteFullSync (length newText)) b'))
              else (Inr (), b)))"

text \<open>
  The body of the \<open>for (const patch of patches)\<close> loop of \<open>_handleRemoteChange\<close>: the
  edits pushed on \<open>changes\<close>, in order. \<open>patch.length || 0\<close> and \<open>patch.value || ''\<close>
  replace an absent field (and the falsy \<open>0\<close> and \<open>''\<close>, by themselves). \<open>path0\<close> is
  \<open>patch.path[0]\<close>, \<open>undefined\<close> on an empty path; \<open>patch_index\<close> is
  \<^verbatim>\<open>typeof patch.path[1] === 'number' ? patch.path[1] : 0\<close>.
\<close>

definition path0 :: "patch \<Rightarrow> path_elem option" where
  "path0 p = (case path p of [] \<Rightarrow> None | p0 # _ \<Rightarrow> Some p0)"

definition patch_index :: "patch \<Rightarrow> int" where
  "patch_index p = (case path p of _ # PNum i # _ \<Rightarrow> i | _ \<Rightarrow> 0)"

fun patch_changes :: "patch list \<Rightarrow> change_spec list" where
  "patch_changes [] = []"
| "patch_changes (p # ps) =
     (if path0 p \<noteq> Some (PStr ''content'') then patch_changes ps
      else if action p = ''splice'' then
        (let index = patch_index p;
             deleteCount = (case length_p p of None \<Rightarrow> 0 | Some n \<Rightarrow> n);
             insertText = (case value_p p of None \<Rightarrow> '''' | Some s \<Rightarrow> s)
         in \<lparr>from_c = index, to_c = index + deleteCount, insert_c = insertText\<rparr>
            # patch_changes ps)
      else patch_changes ps)"

definition log_remote_splices :: "change_spec list \<Rightarrow> binding \<Rightarrow> binding" where
  "log_remote_splices cs b =
     b\<lparr>console := console b
          @ map (\<lambda>c. LogRemoteSplice (from_c c) (to_c c - from_c c) (length (insert_c c))) cs\<rparr>"

text \<open>
  \<open>_handleRemoteChange(doc, patches)\<close>; \<open>doc = None\<close> is a falsy \<open>doc\<close>, \<open>patches = None\<close> a
  falsy \<open>patches\<close>.
\<close>

definition handleRemoteChange ::
  "surface \<Rightarrow> binding \<Rightarrow> am_doc option \<Rightarrow> patch list option \<Rightarrow> (js_error + unit) \<times> binding" where
  "handleRemoteChange cm b docArg patches =
     (if isSyncingLocalChange b then (Inr (), console_log LogSkippingEcho b)
      else
        (case docArg of
           None \<Rightarrow> (Inr (), console_log WarnContentUndefined b)
         | Some d \<Rightarrow>
             if content d = None then (Inr (), console_log WarnContentUndefined b)
             else
               (case patches of
                  None \<Rightarrow> applyFullSync cm b d
                | Some ps \<Rightarrow>
                    if 0 < length ps then
                      (let cs = patch_changes ps;
                           b1 = log_remote_splices cs b
                       in if 0 < length cs then
                            dispatch cm \<lparr>changes = cs, selection_t = None, remote = True\<rparr> b1
                          else applyFullSync cm b1 d)
                    else applyFullSync cm b d)))"

text \<open>
  \<open>handle.change(mutator)\<close> as the binding sees it: the mutation is applied to the
  document of the handle, then the change event \<open>{doc, patches}\<close> is delivered
  synchronously to the registered callbacks, in order. The binding's callback is
  \<^verbatim>\<open>({ doc, patches }) => { this._handleRemoteChange(doc, patches) }\<close>; the session's
  callback re-emits the event to the session's own subscribers, who catch their errors,
  and does not touch the binding. An exception of a callback leaves \<open>handle.change\<close>.
\<close>

fun emit_change ::
  "surface \<Rightarrow> am_doc \<Rightarrow> patch list \<Rightarrow> listener list \<Rightarrow> binding \<Rightarrow> (js_error + unit) \<times> binding" where
  "emit_change cm d ps [] b = (Inr (), b)"
| "emit_change cm d ps (SessionHandler k # ls) b = emit_change cm d ps ls b"
| "emit_change cm d ps (BindingHandler k # ls) b =
     (case handleRemoteChange cm b (Some d) (Some ps) of
        (Inl e, b') \<Rightarrow> (Inl e, b')
      | (Inr u, b') \<Rightarrow> emit_change cm d ps ls b')"

definition handle_change :: "surface \<Rightarrow> mutation \<Rightarrow> binding \<Rightarrow> (js_error + unit) \<times> binding" where
  "handle_change cm m b =
     (case doc (handle b) of
        None \<Rightarrow> (Inl (Error ''DocHandle is not ready''), b)
      | Some d \<Rightarrow>
          (case apply_mutation m d of
             Inl e \<Rightarrow> (Inl e, b)
           | Inr d' \<Rightarrow>
               emit_change cm d' (mutation_patches m) (listeners (handle b))
                 (b\<lparr>handle := (handle b)\<lparr>doc := Some d'\<rparr>\<rparr>)))"

subsection \<open>The local-edit path\<close>

text \<open>
  A \<open>ViewUpdate\<close> as \<open>applyLocalChange\<close> reads it: for each transaction the value of
  \<open>tr.annotation(isRemoteChange)\<close> (\<open>None\<close> when the annotation is absent),
  \<open>update.docChanged\<close>, and the ranges that \<open>update.changes.iterChanges\<close> reports.
\<close>

record iter_change =
  fromA :: int
  toA :: int
  fromB :: int
  toB :: int
  inserted :: string

record view_update =
  transactions :: "bool option list"
  docChanged :: bool
  changes_u :: "iter_change list"

text \<open>
  The callback of \<open>update.changes.iterChanges\<close>, run on each range in order; an exception
  of \<open>handle.change\<close> ends the iteration.
\<close>

fun iterChanges :: "surface \<Rightarrow> iter_change list \<Rightarrow> binding \<Rightarrow> (js_error + unit) \<times> binding" where
  "iterChanges cm [] b = (Inr (), b)"
| "iterChanges cm (c # cs) b =
     (let deleteCount = toA c - fromA c;
          insertText = inserted c
      in case handle_change cm (Splice (fromA c) deleteCount insertText) b of
           (Inl e, b') \<Rightarrow> (Inl e, b')
         | (Inr u, b') \<Rightarrow>
             iterChanges cm cs
               (console_log (LogSpliceToAutomerge (fromA c) deleteCount (length insertText)) b'))"

text \<open>
  \<open>applyLocalChange(update)\<close>. The result pairs what the call returns or throws with the
  binding afterwards; the \<open>finally\<close> block runs on both ways out of the \<open>try\<close>.
\<close>

definition applyLocalChange :: "surface \<Rightarrow> binding \<Rightarrow> view_update \<Rightarrow> (js_error + bool) \<times> binding" where
  "applyLocalChange cm b update =
     (let hasRemoteChange = list_ex (\<lambda>a. a = Some True) (transactions update)
      in if hasRemoteChange then (Inr False, b)
         else if \<not> docChanged update then (Inr False, b)
         else
           (let b1 = b\<lparr>isSyncingLocalChange := True\<rparr>
            in case iterChanges cm (changes_u update) b1 of
                 (Inl e, b2) \<Rightarrow> (Inl e, b2\<lparr>isSyncingLocalChange := False\<rparr>)
               | (Inr u, b2) \<Rightarrow> (Inr True, b2\<lparr>isSyncingLocalChange := False\<rparr>)))"

definition loadInitialContent :: "surface \<Rightarrow> binding \<Rightarrow> string \<Rightarrow> (js_error + unit) \<times> binding" where
  "loadInitialContent cm b c =
     (if c = [] \<or> length c = 0 then (Inr (), b)
      else
        (case dispatch cm
                \<lparr>changes = [\<lparr>from_c = 0, to_c = 0, insert_c = c\<rparr>],
                 selection_t = None, remote = True\<rparr> b of
           (Inl e, b') \<Rightarrow> (Inl e, b')
         | (Inr u, b') \<Rightarrow> (Inr (), console_log (LogLoadedInitial (length c)) b')))"

text \<open>
  The two states of the binding's state machine (section 4.2), over the fields of the
  source and the registrations on the handle: in \<open>Detached\<close> none of the binding's
  closures is registered, in \<open>Attached\<close> exactly the one held in \<open>_changeHandler\<close> is.
\<close>

definition is_binding_handler :: "listener \<Rightarrow> bool" where
  "is_binding_handler l = (case l of BindingHandler k \<Rightarrow> True | SessionHandler k \<Rightarrow> False)"

definition Detached :: "binding \<Rightarrow> bool" where
  "Detached b \<longleftrightarrow>
     \<not> attached b \<and> changeHandler b = None
     \<and> filter is_binding_handler (listeners (handle b)) = []"

definition Attached :: "binding \<Rightarrow> bool" where
  "Attached b \<longleftrightarrow>
     attached b \<and>
     (case changeHandler b of
        None \<Rightarrow> False
      | Some cb \<Rightarrow>
          is_binding_handler cb \<and> filter is_binding_handler (listeners (handle b)) = [cb])"

text \<open>
  A widget for the examples: it accepts a transaction of one change inside its
  document, replaces the range and takes the selection of the transaction when there is
  one.
\<close>

definition example_surface :: surface where
  "example_surface tr st =
     (case changes tr of
        [c] \<Rightarrow>
          if 0 \<le> from_c c \<and> from_c c \<le> to_c c \<and> to_c c \<le> int (length (fst st))
          then Inr (take (nat (from_c c)) (fst st) @ insert_c c @ drop (nat (to_c c)) (fst st),
                    case selection_t tr of None \<Rightarrow> snd st | Some sel \<Rightarrow> sel)
          else Inl (RangeError ''Invalid change range'')
      | _ \<Rightarrow> Inl (RangeError ''unsupported change set''))"


section \<open>The document session (\<open>src/automerge-sync.js\<close>)\<close>

text \<open>
  The events that \<open>AutomergeSync\<close> emits to its subscribers. \<open>EventEmitter.emit\<close> calls
  each subscriber inside \<open>try/catch\<close>, so a subscriber cannot make \<open>emit\<close> throw; the
  session model records the sequence of emitted events. A handle in an event is the
  reference the session holds (the document id under which the handle is stored).
\<close>

datatype session_event =
    Connected
  | Disconnected
  | DocumentReady am_doc string bool
  | DocumentClosed
  | RemoteChange am_doc "patch list"
  | ErrorEvent js_error string

text \<open>
  The fields of \<open>AutomergeSync\<close> (suffixed where the handle record or the binding has a
  field of the same name). \<open>repo\<close> is \<open>None\<close> for \<open>null\<close> and otherwise the URL the
  \<open>Repo\<close> was built for. \<open>handle_s\<close> is a reference into \<open>store\<close>, the handle objects
  of the CRDT engine by document id: a handle outlives the session's reference to it,
  and so do the callbacks registered on it. \<open>emitted\<close> is the event trace,
  \<open>closures_s\<close> the number of change handlers \<open>_setupChangeHandler\<close> has created,
  \<open>window_pathname\<close> and \<open>window_url\<close> stand for \<open>window.location.pathname\<close> and the
  URL given to \<open>window.history.replaceState\<close>, \<open>banners\<close> for the calls of
  \<open>showErrorBanner\<close>. Console output of the session is not modelled.
\<close>

record session =
  syncUrl :: string
  repo :: "string option"
  handle_s :: "string option"
  documentId_s :: "string option"
  isConnected_s :: bool
  changeHandler_s :: "listener option"
  store :: "string \<rightharpoonup> doc_handle"
  emitted :: "session_event list"
  closures_s :: nat
  window_pathname :: string
  window_url :: string
  banners :: "string list"

definition emit :: "session_event \<Rightarrow> session \<Rightarrow> session" where
  "emit ev s = s\<lparr>emitted := emitted s @ [ev]\<rparr>"

text \<open>
  The constructor, \<open>syncUrl || config.urls.automergeSync\<close>; the handles the engine can
  resolve and the page's path are given from outside.
\<close>

definition new_session :: "string option \<Rightarrow> string \<Rightarrow> (string \<rightharpoonup> doc_handle) \<Rightarrow> string \<Rightarrow> session" where
  "new_session url config_url backend pathname =
     \<lparr>syncUrl = (case url of None \<Rightarrow> config_url | Some u \<Rightarrow> if u = [] then config_url else u),
      repo = None, handle_s = None, documentId_s = None, isConnected_s = False,
      changeHandler_s = None, store = backend, emitted = [], closures_s = 0,
      window_pathname = pathname, window_url = pathname, banners = []\<rparr>"

definition update_handle ::
  "string \<Rightarrow> (doc_handle \<Rightarrow> doc_handle) \<Rightarrow> (string \<rightharpoonup> doc_handle) \<Rightarrow> (string \<rightharpoonup> doc_handle)" where
  "update_handle h f st = (case st h of None \<Rightarrow> st | Some hdl \<Rightarrow> st(h \<mapsto> f hdl))"

text \<open>
  \<open>_setupChangeHandler()\<close>: the new closure is
  \<^verbatim>\<open>({ doc, patches }) => { this.emit('remote-change', { doc, patches }) }\<close>.
  Both callers have assigned \<open>this.handle\<close> just before.
\<close>

definition setupChangeHandler :: "session \<Rightarrow> session" where
  "setupChangeHandler s =
     (let cb = SessionHandler (closures_s s);
          s1 = s\<lparr>changeHandler_s := Some cb, closures_s := Suc (closures_s s)\<rparr>
      in case handle_s s1 of
           None \<Rightarrow> s1
         | Some h \<Rightarrow> s1\<lparr>store := update_handle h (handle_on cb) (store s1)\<rparr>)"

text \<open>
  \<open>handle.change(mutator)\<close> as the session sees it: the mutation is applied, then the
  change event goes to the callbacks registered on that handle, in order. Each closure
  made by \<open>_setupChangeHandler\<close> emits \<open>remote-change\<close> on the session, whether or not
  \<open>_changeHandler\<close> still refers to it. Callbacks of other owners do not touch the
  session. A reference of the session always points to a handle in the store; the case
  of a missing handle is there for totality and is given the result of a handle that is
  not ready.
\<close>

fun emit_change_s :: "am_doc \<Rightarrow> patch list \<Rightarrow> listener list \<Rightarrow> session \<Rightarrow> session" where
  "emit_change_s d ps [] s = s"
| "emit_change_s d ps (SessionHandler k # ls) s = emit_change_s d ps ls (emit (RemoteChange d ps) s)"
| "emit_change_s d ps (BindingHandler k # ls) s = emit_change_s d ps ls s"

definition handle_change_s :: "mutation \<Rightarrow> string \<Rightarrow> session \<Rightarrow> (js_error + unit) \<times> session" where
  "handle_change_s m h s =
     (case store s h of
        None \<Rightarrow> (Inl (Error ''DocHandle is not ready''), s)
      | Some hdl \<Rightarrow>
          (case doc hdl of
             None \<Rightarrow> (Inl (Error ''DocHandle is not ready''), s)
           | Some d \<Rightarrow>
               (case apply_mutation m d of
                  Inl e \<Rightarrow> (Inl e, s)
                | Inr d' \<Rightarrow>
                    (Inr (),
                     emit_change_s d' (mutation_patches m) (listeners hdl)
                       (s\<lparr>store := (store s)(h \<mapsto> hdl\<lparr>doc := Some d'\<rparr>)\<rparr>)))))"

definition connect :: "session \<Rightarrow> session" where
  "connect s =
     (if repo s \<noteq> None then s
      else emit Connected (s\<lparr>repo := Some (syncUrl s), isConnected_s := True\<rparr>))"

definition closeDocument :: "session \<Rightarrow> session" where
  "closeDocument s =
     (case handle_s s of
        None \<Rightarrow> s
      | Some h \<Rightarrow>
          (let s1 = (case changeHandler_s s of
                       Some cb \<Rightarrow>
                         s\<lparr>store := update_handle h (handle_off cb) (store s),
                           changeHandler_s := None\<rparr>
                     | None \<Rightarrow> s);
               s2 = s1\<lparr>handle_s := None\<rparr>;
               s3 = s2\<lparr>documentId_s := None\<rparr>
           in emit DocumentClosed s3))"

definition disconnect :: "session \<Rightarrow> session" where
  "disconnect s =
     (let s1 = (if handle_s s \<noteq> None then closeDocument s else s)
      in emit Disconnected (s1\<lparr>repo := None, isConnected_s := False\<rparr>))"

text \<open>
  Modelled from the spec: \<open>createHandle() \<rightarrow> Handle\<close> (\<open>repo.create()\<close>), a new handle with
  an empty document and no callbacks, stored under the identifier the engine chose.
\<close>

definition repo_create :: "string \<Rightarrow> (string \<rightharpoonup> doc_handle) \<Rightarrow> (string \<rightharpoonup> doc_handle)" where
  "repo_create new_id st =
     st(new_id \<mapsto> \<lparr>documentId = new_id, doc = Some \<lparr>content = None, metadata = None\<rparr>,
                   listeners = []\<rparr>)"

text \<open>
  \<open>createDocument()\<close>, given the value \<open>now\<close> of \<open>Date.now()\<close> and the identifier \<open>new_id\<close>
  of the handle that \<open>repo.create()\<close> returns.
\<close>

definition createDocument :: "int \<Rightarrow> string \<Rightarrow> session \<Rightarrow> (js_error + string) \<times> session" where
  "createDocument now new_id s =
     (case repo s of
        None \<Rightarrow> (Inl (Error ''Not connected. Call connect() first.''), s)
      | Some r \<Rightarrow>
          (let s1 = s\<lparr>store := repo_create new_id (store s), handle_s := Some new_id\<rparr>
           in case handle_change_s (InitDocument now) new_id s1 of
                (Inl e, s2) \<Rightarrow> (Inl e, s2)
              | (Inr u, s2) \<Rightarrow>
                  (let s3 = s2\<lparr>documentId_s := map_option documentId (store s2 new_id)\<rparr>;
                       s4 = setupChangeHandler s3;
                       s5 = s4\<lparr>window_url := window_pathname s4 @ ''?doc='' @ new_id\<rparr>
                   in case Option.bind (store s5 new_id) doc of
                        None \<Rightarrow> (Inl (Error ''DocHandle is not ready''), s5)
                      | Some d \<Rightarrow> (Inr new_id, emit (DocumentReady d new_id True) s5))))"

text \<open>\<open>documentId.startsWith('automerge:')\<close> and the identifier given to \<open>repo.find\<close>.\<close>

definition startsWith :: "string \<Rightarrow> string \<Rightarrow> bool" where
  "startsWith s p \<longleftrightarrow> take (length p) s = p"

definition fullDocId :: "string \<Rightarrow> string" where
  "fullDocId docId =
     (if startsWith docId ''automerge:'' then docId else ''automerge:'' @ docId)"

text \<open>
  Modelled from the spec: \<open>findHandle(id) \<rightarrow> Promise<Handle>\<close> followed by
  \<open>handle.whenReady()\<close> (\<open>repo.find\<close>): the identifier is an \<open>automerge:\<close> URL; the promise
  is rejected when the URL is malformed or the engine cannot resolve the document, and
  gives the reference to the handle otherwise.
\<close>

definition repo_find :: "(string \<rightharpoonup> doc_handle) \<Rightarrow> string \<Rightarrow> js_error + string" where
  "repo_find st url =
     (if startsWith url ''automerge:'' then
        (let h = drop (length ''automerge:'') url
         in case st h of
              None \<Rightarrow> Inl (Error ''Document unavailable'')
            | Some hdl \<Rightarrow> Inr h)
      else Inl (Error ''Invalid AutomergeUrl''))"

text \<open>
  The \<open>catch\<close> block of \<open>openDocument\<close>: banner, \<open>error\<close> event, and the error thrown
  again.
\<close>

definition openDocument_failed :: "js_error \<Rightarrow> session \<Rightarrow> (js_error + unit) \<times> session" where
  "openDocument_failed err s =
     (let s1 = s\<lparr>banners := banners s @
                 [''Failed to load document. It may not exist or the network may be unavailable.'']\<rparr>
      in (Inl err, emit (ErrorEvent err ''openDocument'') s1))"

text \<open>
  \<open>openDocument(documentId)\<close>, the argument written \<open>docId\<close>. The function is \<open>async\<close>; it is modelled as one step, with
  no other call of the session between its \<open>await\<close>s. The result is the value or the
  rejection of the promise.
\<close>

definition openDocument :: "string \<Rightarrow> session \<Rightarrow> (js_error + unit) \<times> session" where
  "openDocument docId s =
     (case repo s of
        None \<Rightarrow> (Inl (Error ''Not connected. Call connect() first.''), s)
      | Some r \<Rightarrow>
          (let s1 = (if handle_s s \<noteq> None then closeDocument s else s)
           in case repo_find (store s1) (fullDocId docId) of
                Inl e \<Rightarrow> openDocument_failed e s1
              | Inr h \<Rightarrow>
                  (let s2 = s1\<lparr>handle_s := Some h\<rparr>
                   in case Option.bind (store s2 h) doc of
                        None \<Rightarrow> openDocument_failed (Error ''Document loaded but has no content'') s2
                      | Some d \<Rightarrow>
                          (let s3 = s2\<lparr>documentId_s := map_option documentId (store s2 h)\<rparr>;
                               s4 = setupChangeHandler s3
                           in (Inr (), emit (DocumentReady d h False) s4)))))"

definition applyLocalEdit :: "int \<Rightarrow> int \<Rightarrow> string \<Rightarrow> session \<Rightarrow> (js_error + unit) \<times> session" where
  "applyLocalEdit position deleteCount insertText s =
     (case handle_s s of
        None \<Rightarrow> (Inl (Error ''No document open''), s)
      | Some h \<Rightarrow> handle_change_s (Splice position deleteCount insertText) h s)"

definition getContent :: "session \<Rightarrow> string" where
  "getContent s =
     (case handle_s s of
        None \<Rightarrow> []
      | Some h \<Rightarrow>
          (case Option.bind (store s h) doc of
             None \<Rightarrow> []
           | Some d \<Rightarrow>
               (case content d of
                  None \<Rightarrow> []
                | Some c \<Rightarrow> (case c of CString t \<Rightarrow> t | CObject t \<Rightarrow> t))))"

definition getDocumentId :: "session \<Rightarrow> string option" where
  "getDocumentId s = documentId_s s"

definition getHandle :: "session \<Rightarrow> string option" where
  "getHandle s = handle_s s"

definition isConnected :: "session \<Rightarrow> bool" where
  "isConnected s = isConnected_s s"

text \<open>
  Modelled from the spec: the error kind \<open>IllegalState\<close> of section 7, "operation invoked
  on DocumentSession without required prior state (not connected; no active document)".
  The source throws plain \<open>Error\<close> objects; these are the two messages.
\<close>

definition IllegalState :: "js_error \<Rightarrow> bool" where
  "IllegalState e \<longleftrightarrow>
     e = Error ''Not connected. Call connect() first.'' \<or> e = Error ''No document open''"

definition is_session_handler :: "listener \<Rightarrow> bool" where
  "is_session_handler l = (case l of SessionHandler k \<Rightarrow> True | BindingHandler k \<Rightarrow> False)"

text \<open>The documents on which a change handler of the session is registered.\<close>

definition subscribed :: "session \<Rightarrow> string \<Rightarrow> bool" where
  "subscribed s h =
     (case store s h of None \<Rightarrow> False | Some hdl \<Rightarrow> list_ex is_session_handler (listeners hdl))"

text \<open>
  The connection state that \<open>isConnected()\<close> reports and the \<open>repo\<close> field that
  \<open>createDocument\<close> and \<open>openDocument\<close> test are set together by \<open>connect\<close> and
  \<open>disconnect\<close>; \<open>connection_inv\<close> says that they agree.
\<close>

definition connection_inv :: "session \<Rightarrow> bool" where
  "connection_inv s \<longleftrightarrow> (isConnected s \<longleftrightarrow> repo s \<noteq> None)"

text \<open>The document that the mutator of \<open>createDocument\<close> writes at time \<open>now\<close>.\<close>

definition initial_doc :: "int \<Rightarrow> am_doc" where
  "initial_doc now =
     \<lparr>content = Some (CString []), metadata = Some \<lparr>created = now, version = 1\<rparr>\<rparr>"

subsection \<open>Values for the examples\<close>

definition example_view :: editor_view where
  "example_view =
     \<lparr>state_doc = ''0123456789'', state_selection = \<lparr>anchor = 8, head = 10\<rparr>, dispatched = []\<rparr>"

definition example_handle :: doc_handle where
  "example_handle =
     \<lparr>documentId = ''doc1'',
      doc = Some \<lparr>content = Some (CString ''0123456789''),
                  metadata = Some \<lparr>created = 1700000000000, version = 1\<rparr>\<rparr>,
      listeners = [SessionHandler 0]\<rparr>"

definition example_binding :: binding where
  "example_binding = attach (new_binding example_view example_handle)"

definition example_backend :: "string \<rightharpoonup> doc_handle" where
  "example_backend =
     [''abc'' \<mapsto> \<lparr>documentId = ''abc'',
                   doc = Some \<lparr>content = Some (CString ''hello''),
                               metadata = Some \<lparr>created = 1700000000000, version = 1\<rparr>\<rparr>,
                   listeners = []\<rparr>]"

definition example_session :: session where
  "example_session = connect (new_session None ''ws://localhost:1234'' example_backend ''/'')"

definition example_backend_two :: "string \<rightharpoonup> doc_handle" where
  "example_backend_two =
     [''abc'' \<mapsto> \<lparr>documentId = ''abc'',
                   doc = Some \<lparr>content = Some (CString ''hello''),
                               metadata = Some \<lparr>created = 1700000000000, version = 1\<rparr>\<rparr>,
                   listeners = []\<rparr>,
      ''xyz'' \<mapsto> \<lparr>documentId = ''xyz'',
                   doc = Some \<lparr>content = Some (CString ''world''),
                               metadata = Some \<lparr>created = 1700000000001, version = 1\<rparr>\<rparr>,
                   listeners = []\<rparr>]"

text \<open>A connected session that has opened the document \<open>abc\<close>.\<close>

definition example_session_open :: session where
  "example_session_open =
     snd (openDocument ''abc''
            (connect (new_session None ''ws://localhost:1234'' example_backend_two ''/'')))"


section \<open>Properties of the editor binding\<close>

subsection \<open>Patch translation\<close>

lemma patch_changes_append: "patch_changes (ps @ qs) = patch_changes ps @ patch_changes qs"
  by (induction ps) (auto simp: Let_def)

lemma patch_changes_content_splice:
  "patch_changes (\<lparr>path = [PStr ''content'', PNum i], action = ''splice'',
                    length_p = Some n, value_p = Some s\<rparr> # qs)
   = \<lparr>from_c = i, to_c = i + n, insert_c = s\<rparr> # patch_changes qs"
  by (simp add: patch_index_def path0_def)

lemma patch_changes_not_content:
  "\<forall>p \<in> set ps. path0 p \<noteq> Some (PStr ''content'') \<Longrightarrow> patch_changes ps = []"
  by (induction ps) auto

lemma dispatch_dispatched:
  "dispatched (view (snd (dispatch cm tr b))) = dispatched (view b) @ [tr]"
  by (auto simp: dispatch_def view_dispatch_def split: sum.splits prod.splits)

lemma view_log_remote_splices: "view (log_remote_splices cs b) = view b"
  by (simp add: log_remote_splices_def)

lemma log_remote_splices_Nil: "log_remote_splices [] b = b"
  by (simp add: log_remote_splices_def)

lemma handleRemoteChange_patches:
  assumes "\<not> isSyncingLocalChange b" and "content d \<noteq> None" and "patch_changes ps \<noteq> []"
  shows "dispatched (view (snd (handleRemoteChange cm b (Some d) (Some ps))))
         = dispatched (view b) @ [\<lparr>changes = patch_changes ps, selection_t = None, remote = True\<rparr>]"
proof -
  from assms(3) have "ps \<noteq> []" by auto
  moreover from assms(2) obtain c where "content d = Some c" by auto
  ultimately show ?thesis using assms(1,3)
    by (simp add: handleRemoteChange_def Let_def dispatch_dispatched view_log_remote_splices
             del: patch_changes.simps)
qed

text \<open>
  Claim C3 (patch translation correctness). A patch
  \<open>{path: ['content', i], action: 'splice', length: n, value: s}\<close> anywhere in the patch
  list is translated by the loop of \<open>_handleRemoteChange\<close> to exactly the edit
  \<open>{from: i, to: i + n, insert: s}\<close>, at the position among the edits that the patch has
  among the translated patches; and when the handler runs with the re-entrancy guard
  clear on a document whose content is defined, these edits are given to
  \<open>view.dispatch\<close> in one transaction marked as remote.
\<close>

theorem patch_translation:
  "patch_changes (ps @ [\<lparr>path = [PStr ''content'', PNum i], action = ''splice'',
                           length_p = Some n, value_p = Some s\<rparr>] @ qs)
     = patch_changes ps @ [\<lparr>from_c = i, to_c = i + n, insert_c = s\<rparr>] @ patch_changes qs
   \<and> (\<not> isSyncingLocalChange b \<and> content d \<noteq> None \<longrightarrow>
        dispatched (view (snd (handleRemoteChange cm b (Some d)
            (Some (ps @ [\<lparr>path = [PStr ''content'', PNum i], action = ''splice'',
                           length_p = Some n, value_p = Some s\<rparr>] @ qs)))))
         = dispatched (view b)
           @ [\<lparr>changes = patch_changes ps @ [\<lparr>from_c = i, to_c = i + n, insert_c = s\<rparr>]
                           @ patch_changes qs,
               selection_t = None, remote = True\<rparr>])"
proof -
  let ?p = "\<lparr>path = [PStr ''content'', PNum i], action = ''splice'',
             length_p = Some n, value_p = Some s\<rparr>"
  let ?e = "\<lparr>from_c = i, to_c = i + n, insert_c = s\<rparr>"
  have cs: "patch_changes (ps @ [?p] @ qs) = patch_changes ps @ [?e] @ patch_changes qs"
    by (simp only: patch_changes_append append_Cons append_Nil patch_changes_content_splice)
  then have ne: "patch_changes (ps @ [?p] @ qs) \<noteq> []" by simp
  have "dispatched (view (snd (handleRemoteChange cm b (Some d) (Some (ps @ [?p] @ qs)))))
        = dispatched (view b)
          @ [\<lparr>changes = patch_changes ps @ [?e] @ patch_changes qs,
              selection_t = None, remote = True\<rparr>]"
    if "\<not> isSyncingLocalChange b" and "content d \<noteq> None"
    using handleRemoteChange_patches [OF that ne, of cm] by (simp only: cs)
  with cs show ?thesis by blast
qed

text \<open>
  A metadata patch, the splice of \<open>XY\<close> over three characters from position 1, and a
  patch of another action: one edit is dispatched.
\<close>

theorem patch_translation_witness:
  "dispatched (view (snd (handleRemoteChange example_surface
      (new_binding example_view example_handle)
      (Some \<lparr>content = Some (CString ''0XY456789''), metadata = None\<rparr>)
      (Some ([\<lparr>path = [PStr ''metadata'', PStr ''version''], action = ''put'',
                length_p = None, value_p = None\<rparr>]
             @ [\<lparr>path = [PStr ''content'', PNum 1], action = ''splice'',
                  length_p = Some 3, value_p = Some ''XY''\<rparr>]
             @ [\<lparr>path = [PStr ''content'', PNum 0], action = ''del'',
                  length_p = Some 1, value_p = None\<rparr>])))))
   = [\<lparr>changes = [\<lparr>from_c = 1, to_c = 4, insert_c = ''XY''\<rparr>],
       selection_t = None, remote = True\<rparr>]"
proof -
  let ?b = "new_binding example_view example_handle"
  let ?d = "\<lparr>content = Some (CString ''0XY456789''), metadata = None\<rparr>"
  have h: "\<not> isSyncingLocalChange ?b \<and> content ?d \<noteq> None"
    by (simp add: new_binding_def)
  have e: "dispatched (view ?b) = []"
    by (simp add: new_binding_def example_view_def)
  from patch_translation [of "[\<lparr>path = [PStr ''metadata'', PStr ''version''], action = ''put'',
                length_p = None, value_p = None\<rparr>]" 1 3 "''XY''"
        "[\<lparr>path = [PStr ''content'', PNum 0], action = ''del'',
                  length_p = Some 1, value_p = None\<rparr>]" ?b ?d example_surface] h e
  show ?thesis by (simp add: path0_def)
qed

subsection \<open>Fallback to the full content\<close>

lemma applyFullSync_same_text:
  "content d = Some c \<Longrightarrow> content_text c = state_doc (view b) \<Longrightarrow>
   applyFullSync cm b d = (Inr (), b)"
  by (cases c) (auto simp: applyFullSync_def)

lemma handleRemoteChange_fallback:
  assumes "\<not> isSyncingLocalChange b" and "content d \<noteq> None"
    and "case patches of None \<Rightarrow> True | Some ps \<Rightarrow> patch_changes ps = []"
  shows "handleRemoteChange cm b (Some d) patches = applyFullSync cm b d"
proof -
  from assms(2) obtain c where "content d = Some c" by auto
  with assms(1,3) show ?thesis
    by (simp add: handleRemoteChange_def log_remote_splices_Nil split: option.splits)
qed

text \<open>
  Claim C6 (selection clamping of the fallback full sync). When \<open>_applyFullSync\<close> finds
  the document's text different from the editor's, it dispatches one transaction that
  replaces the whole old text by the new one and carries as selection the previous
  anchor and head, each replaced by the length of the new text when it is greater.
\<close>

theorem full_sync_selection_clamped:
  assumes "content d = Some c" and "content_text c \<noteq> state_doc (view b)"
  shows "dispatched (view (snd (applyFullSync cm b d)))
         = dispatched (view b)
           @ [\<lparr>changes = [\<lparr>from_c = 0, to_c = int (length (state_doc (view b))),
                           insert_c = content_text c\<rparr>],
               selection_t = Some
                 \<lparr>anchor = min (anchor (state_selection (view b))) (int (length (content_text c))),
                  head = min (head (state_selection (view b))) (int (length (content_text c)))\<rparr>,
               remote = True\<rparr>]"
  using assms
  by (cases c)
     (auto simp: applyFullSync_def Let_def console_log_def dispatch_def view_dispatch_def
           split: sum.splits prod.splits)

text \<open>
  The example of the specification: old text of length 10, selection 8/10, new text of
  length 5; the dispatched selection is 5/5.
\<close>

theorem full_sync_selection_clamped_witness:
  "dispatched (view (snd (applyFullSync example_surface
      (new_binding example_view example_handle)
      \<lparr>content = Some (CString ''abcde''), metadata = None\<rparr>)))
   = [\<lparr>changes = [\<lparr>from_c = 0, to_c = 10, insert_c = ''abcde''\<rparr>],
       selection_t = Some \<lparr>anchor = 5, head = 5\<rparr>, remote = True\<rparr>]"
proof -
  let ?b = "new_binding example_view example_handle"
  let ?d = "\<lparr>content = Some (CString ''abcde''), metadata = None\<rparr>"
  have h1: "content ?d = Some (CString ''abcde'')" by simp
  have h2: "content_text (CString ''abcde'') \<noteq> state_doc (view ?b)"
    by (simp add: new_binding_def example_view_def)
  from full_sync_selection_clamped [OF h1 h2, of example_surface] show ?thesis
    by (simp add: new_binding_def example_view_def)
qed

text \<open>
  Claim C8 (patches that do not concern the content produce no edit). With the guard
  clear, a non-empty patch list in which every patch has \<open>path[0] = 'metadata'\<close>, and a
  document whose content is the editor's current text: \<open>_handleRemoteChange\<close> returns
  without any call of \<open>view.dispatch\<close> and leaves the binding as it was.
\<close>

theorem metadata_patches_no_edit:
  assumes "\<not> isSyncingLocalChange b"
    and "ps \<noteq> []" and "\<forall>p \<in> set ps. path0 p = Some (PStr ''metadata'')"
    and "content d = Some c" and "content_text c = state_doc (view b)"
  shows "handleRemoteChange cm b (Some d) (Some ps) = (Inr (), b)
       \<and> dispatched (view (snd (handleRemoteChange cm b (Some d) (Some ps)))) = dispatched (view b)"
proof -
  from assms(3) have "\<forall>p \<in> set ps. path0 p \<noteq> Some (PStr ''content'')" by simp
  then have "patch_changes ps = []" by (rule patch_changes_not_content)
  with assms(1,2,4) applyFullSync_same_text [OF assms(4,5), of cm] show ?thesis
    by (simp add: handleRemoteChange_def log_remote_splices_Nil)
qed

theorem metadata_patches_no_edit_witness:
  "handleRemoteChange example_surface example_binding
     (Some \<lparr>content = Some (CString ''0123456789''),
            metadata = Some \<lparr>created = 1700000000000, version = 2\<rparr>\<rparr>)
     (Some [\<lparr>path = [PStr ''metadata'', PStr ''version''], action = ''put'',
             length_p = None, value_p = None\<rparr>])
   = (Inr (), example_binding)
   \<and> dispatched (view (snd (handleRemoteChange example_surface example_binding
        (Some \<lparr>content = Some (CString ''0123456789''),
               metadata = Some \<lparr>created = 1700000000000, version = 2\<rparr>\<rparr>)
        (Some [\<lparr>path = [PStr ''metadata'', PStr ''version''], action = ''put'',
                length_p = None, value_p = None\<rparr>])))) = dispatched (view example_binding)"
  by (rule metadata_patches_no_edit [where c = "CString ''0123456789''"])
     (simp_all add: example_binding_def attach_def new_binding_def console_log_def Let_def
        example_view_def path0_def)

text \<open>
  The hypothesis on the content is needed: the same patch with a document whose text
  differs from the editor's falls through to the full replacement.
\<close>

lemma metadata_patch_stale_editor_example:
  "dispatched (view (snd (handleRemoteChange example_surface example_binding
     (Some \<lparr>content = Some (CString ''abcde''), metadata = None\<rparr>)
     (Some [\<lparr>path = [PStr ''metadata'', PStr ''version''], action = ''put'',
             length_p = None, value_p = None\<rparr>]))))
   = [\<lparr>changes = [\<lparr>from_c = 0, to_c = 10, insert_c = ''abcde''\<rparr>],
       selection_t = Some \<lparr>anchor = 5, head = 5\<rparr>, remote = True\<rparr>]"
  by (simp add: handleRemoteChange_def example_binding_def attach_def new_binding_def
      console_log_def Let_def example_view_def path0_def log_remote_splices_def
      applyFullSync_def dispatch_def view_dispatch_def example_surface_def example_handle_def
      handle_on_def)

subsection \<open>Attaching and detaching\<close>

lemma Detached_new_binding:
  "filter is_binding_handler (listeners h) = [] \<Longrightarrow> Detached (new_binding v h)"
  by (simp add: Detached_def new_binding_def)

lemma detach_not_attached: "\<not> attached b \<Longrightarrow> detach b = b"
  by (simp add: detach_def)

lemma detach_Detached: "Detached b \<Longrightarrow> detach b = b"
  by (simp add: Detached_def detach_def)

lemma attached_detach: "\<not> attached (detach b)"
  by (simp add: detach_def console_log_def Let_def split: option.splits)

lemma Attached_attach: "Detached b \<Longrightarrow> Attached (attach b)"
  by (simp add: Detached_def Attached_def attach_def Let_def console_log_def handle_on_def
      is_binding_handler_def)

lemma attach_Attached: "Attached b \<Longrightarrow> Attached (attach b)"
  by (simp add: Attached_def attach_def console_log_def split: option.splits)

lemma filter_neq_singleton:
  assumes "filter P xs = [x]"
  shows "filter (\<lambda>l. l \<noteq> x \<and> P l) xs = []"
proof -
  have "filter (\<lambda>l. l \<noteq> x \<and> P l) xs = filter (\<lambda>l. l \<noteq> x) (filter P xs)"
    by (simp add: conj_commute)
  with assms show ?thesis by simp
qed

lemma Detached_detach: "Attached b \<Longrightarrow> Detached (detach b)"
  by (auto simp: Detached_def Attached_def detach_def Let_def console_log_def handle_off_def
      filter_neq_singleton split: option.splits)

text \<open>
  The other operations of the binding leave the registration as it is, so every
  binding reached from the constructor is in one of the two states.
\<close>

lemma dispatch_fields:
  "handle (snd (dispatch cm tr b)) = handle b"
  "attached (snd (dispatch cm tr b)) = attached b"
  "changeHandler (snd (dispatch cm tr b)) = changeHandler b"
  by (simp_all add: dispatch_def split: prod.splits)

lemma applyFullSync_fields:
  "handle (snd (applyFullSync cm b d)) = handle b"
  "attached (snd (applyFullSync cm b d)) = attached b"
  "changeHandler (snd (applyFullSync cm b d)) = changeHandler b"
  by (auto simp: applyFullSync_def Let_def console_log_def dispatch_def view_dispatch_def
      split: option.splits prod.splits sum.splits)

lemma handleRemoteChange_fields:
  "handle (snd (handleRemoteChange cm b d ps)) = handle b"
  "attached (snd (handleRemoteChange cm b d ps)) = attached b"
  "changeHandler (snd (handleRemoteChange cm b d ps)) = changeHandler b"
  by (simp_all add: handleRemoteChange_def Let_def console_log_def log_remote_splices_def
      applyFullSync_fields dispatch_fields split: option.splits)

lemma emit_change_fields:
  "handle (snd (emit_change cm d ps ls b)) = handle b
   \<and> attached (snd (emit_change cm d ps ls b)) = attached b
   \<and> changeHandler (snd (emit_change cm d ps ls b)) = changeHandler b"
proof (induction ls arbitrary: b)
  case Nil
  then show ?case by simp
next
  case (Cons l ls)
  show ?case
  proof (cases l)
    case (SessionHandler k)
    with Cons show ?thesis by simp
  next
    case (BindingHandler k)
    obtain r b' where h: "handleRemoteChange cm b (Some d) (Some ps) = (r, b')"
      by (cases "handleRemoteChange cm b (Some d) (Some ps)")
    from handleRemoteChange_fields [of cm b "Some d" "Some ps"] h
    have f: "handle b' = handle b" "attached b' = attached b" "changeHandler b' = changeHandler b"
      by simp_all
    show ?thesis
      using BindingHandler h f Cons.IH [of b'] by (cases r) simp_all
  qed
qed

lemma handle_change_fields:
  "listeners (handle (snd (handle_change cm m b))) = listeners (handle b)
   \<and> attached (snd (handle_change cm m b)) = attached b
   \<and> changeHandler (snd (handle_change cm m b)) = changeHandler b"
  using emit_change_fields [of cm _ _ _ "b\<lparr>handle := (handle b)\<lparr>doc := Some d'\<rparr>\<rparr>" for d']
  by (auto simp: handle_change_def split: option.splits sum.splits)

lemma iterChanges_fields:
  "listeners (handle (snd (iterChanges cm cs b))) = listeners (handle b)
   \<and> attached (snd (iterChanges cm cs b)) = attached b
   \<and> changeHandler (snd (iterChanges cm cs b)) = changeHandler b"
proof (induction cs arbitrary: b)
  case Nil
  then show ?case by simp
next
  case (Cons c cs)
  let ?m = "Splice (fromA c) (toA c - fromA c) (inserted c)"
  obtain r b' where hc: "handle_change cm ?m b = (r, b')" by (cases "handle_change cm ?m b")
  from handle_change_fields [of cm ?m b] hc
  have f: "listeners (handle b') = listeners (handle b)" "attached b' = attached b"
    "changeHandler b' = changeHandler b" by simp_all
  let ?b2 = "console_log (LogSpliceToAutomerge (fromA c) (toA c - fromA c)
                 (length (inserted c))) b'"
  have f2: "listeners (handle ?b2) = listeners (handle b)" "attached ?b2 = attached b"
    "changeHandler ?b2 = changeHandler b" using f by (simp_all add: console_log_def)
  show ?case
    using hc f f2 Cons.IH [of ?b2] by (cases r) (simp_all add: Let_def)
qed

lemma applyLocalChange_fields:
  "listeners (handle (snd (applyLocalChange cm b u))) = listeners (handle b)
   \<and> attached (snd (applyLocalChange cm b u)) = attached b
   \<and> changeHandler (snd (applyLocalChange cm b u)) = changeHandler b"
  using iterChanges_fields [of cm "changes_u u" "b\<lparr>isSyncingLocalChange := True\<rparr>"]
  by (auto simp: applyLocalChange_def Let_def split: prod.splits sum.splits)

lemma binding_state_cong:
  assumes "listeners (handle b') = listeners (handle b)" and "attached b' = attached b"
    and "changeHandler b' = changeHandler b"
  shows "Detached b' = Detached b" and "Attached b' = Attached b"
  using assms by (auto simp: Detached_def Attached_def split: option.splits)

lemma Detached_applyLocalChange: "Detached (snd (applyLocalChange cm b u)) = Detached b"
  by (rule binding_state_cong(1)) (simp_all add: applyLocalChange_fields)

lemma Attached_applyLocalChange: "Attached (snd (applyLocalChange cm b u)) = Attached b"
  by (rule binding_state_cong(2)) (simp_all add: applyLocalChange_fields)

lemma Detached_handleRemoteChange: "Detached (snd (handleRemoteChange cm b d ps)) = Detached b"
  by (rule binding_state_cong(1)) (simp_all add: handleRemoteChange_fields)

lemma Attached_handleRemoteChange: "Attached (snd (handleRemoteChange cm b d ps)) = Attached b"
  by (rule binding_state_cong(2)) (simp_all add: handleRemoteChange_fields)

text \<open>
  Claim C9 (idempotence of detach). \<open>detach\<close> has no failing path. A second \<open>detach\<close>
  changes nothing, and the binding is not attached afterwards. From either state of the
  state machine, the binding is in the \<open>Detached\<close> state after one and after two calls:
  not attached, no change handler held, none of its closures registered on the handle.
  On a newly constructed binding (no \<open>attach\<close> yet) \<open>detach\<close> changes nothing and the
  binding is \<open>Detached\<close>.
\<close>

theorem detach_idempotent:
  "detach (detach b) = detach b \<and> \<not> attached (detach (detach b))
   \<and> (Detached b \<or> Attached b \<longrightarrow> Detached (detach b) \<and> Detached (detach (detach b)))
   \<and> (filter is_binding_handler (listeners h) = [] \<longrightarrow>
        detach (new_binding v h) = new_binding v h \<and> Detached (detach (new_binding v h)))"
  using attached_detach [of b] detach_not_attached [of "detach b"]
    Detached_detach [of b] detach_Detached [of b] Detached_new_binding [of h v]
    detach_Detached [of "new_binding v h"]
  by auto

theorem detach_idempotent_witness:
  "Attached example_binding
   \<and> detach (detach example_binding) = detach example_binding
   \<and> Detached (detach (detach example_binding))
   \<and> listeners (handle (detach (detach example_binding))) = [SessionHandler 0]
   \<and> detach (new_binding example_view example_handle) = new_binding example_view example_handle
   \<and> Detached (detach (new_binding example_view example_handle))"
proof -
  have d: "Detached (new_binding example_view example_handle)"
    by (simp add: Detached_def new_binding_def example_handle_def is_binding_handler_def)
  then have a: "Attached example_binding"
    unfolding example_binding_def by (rule Attached_attach)
  have f: "filter is_binding_handler (listeners example_handle) = []"
    by (simp add: example_handle_def is_binding_handler_def)
  have l: "listeners (handle (detach example_binding)) = [SessionHandler 0]"
    by (simp add: example_binding_def attach_def detach_def new_binding_def console_log_def
        Let_def handle_on_def handle_off_def example_handle_def)
  from detach_idempotent [of example_binding example_handle example_view] a f l d
  show ?thesis by simp
qed

subsection \<open>The re-entrancy guard\<close>

lemma handleRemoteChange_guarded:
  "isSyncingLocalChange b \<Longrightarrow>
   handleRemoteChange cm b d ps = (Inr (), console_log LogSkippingEcho b)"
  by (simp add: handleRemoteChange_def)

text \<open>
  While the guard is set, the change event reaches every callback of the binding on
  the handle, and each call is discarded with the message of the echo.
\<close>

lemma emit_change_guarded:
  "isSyncingLocalChange b \<Longrightarrow>
   emit_change cm d ps ls b
   = (Inr (), b\<lparr>console := console b
                   @ replicate (length (filter is_binding_handler ls)) LogSkippingEcho\<rparr>)"
proof (induction ls arbitrary: b)
  case Nil
  then show ?case by simp
next
  case (Cons l ls)
  show ?case
  proof (cases l)
    case (BindingHandler k)
    have g: "isSyncingLocalChange (console_log LogSkippingEcho b)"
      using Cons.prems by (simp add: console_log_def)
    from Cons.IH [OF g] Cons.prems BindingHandler show ?thesis
      by (simp add: handleRemoteChange_guarded console_log_def is_binding_handler_def
          replicate_append_same)
  next
    case (SessionHandler k)
    with Cons show ?thesis by (simp add: is_binding_handler_def)
  qed
qed

lemma handle_change_guarded:
  "isSyncingLocalChange b \<Longrightarrow>
     view (snd (handle_change cm m b)) = view b \<and>
     isSyncingLocalChange (snd (handle_change cm m b))"
  using emit_change_guarded [of "b\<lparr>handle := (handle b)\<lparr>doc := Some d'\<rparr>\<rparr>" for d']
  by (auto simp: handle_change_def split: option.splits sum.splits)

lemma iterChanges_guarded:
  "isSyncingLocalChange b \<Longrightarrow>
     view (snd (iterChanges cm cs b)) = view b \<and>
     isSyncingLocalChange (snd (iterChanges cm cs b))"
proof (induction cs arbitrary: b)
  case Nil
  then show ?case by simp
next
  case (Cons c cs)
  let ?m = "Splice (fromA c) (toA c - fromA c) (inserted c)"
  obtain r b' where hc: "handle_change cm ?m b = (r, b')" by (cases "handle_change cm ?m b")
  from handle_change_guarded [OF Cons.prems, of cm ?m] hc
  have v: "view b' = view b" and g: "isSyncingLocalChange b'" by simp_all
  show ?case
  proof (cases r)
    case (Inl e)
    with hc v g show ?thesis by (simp add: Let_def)
  next
    case (Inr u)
    let ?b2 = "console_log (LogSpliceToAutomerge (fromA c) (toA c - fromA c)
                 (length (inserted c))) b'"
    have "isSyncingLocalChange ?b2" "view ?b2 = view b"
      using g v by (simp_all add: console_log_def)
    with Cons.IH [of ?b2] hc Inr show ?thesis by (simp add: Let_def)
  qed
qed

text \<open>
  Claim C1 (echo suppression). Whatever \<open>applyLocalChange\<close> forwards to the document, and
  whether or not one of the mutations throws, the change events that \<open>handle.change\<close>
  delivers during the call find the guard set and are discarded: the editor view after
  the call is the view before it, and in particular no call of \<open>view.dispatch\<close> has been
  added.
\<close>

theorem echo_suppression:
  "view (snd (applyLocalChange cm b u)) = view b
   \<and> dispatched (view (snd (applyLocalChange cm b u))) = dispatched (view b)"
proof -
  have g: "isSyncingLocalChange (b\<lparr>isSyncingLocalChange := True\<rparr>)" by simp
  from iterChanges_guarded [OF g, of cm "changes_u u"]
  have "view (snd (applyLocalChange cm b u)) = view b"
    by (auto simp: applyLocalChange_def Let_def split: prod.splits sum.splits)
  then show ?thesis by simp
qed

text \<open>
  An attached binding forwards the insertion of \<open>x\<close> at the end: the document changes,
  the echo is delivered and skipped, nothing is dispatched.
\<close>

theorem echo_suppression_witness:
  "fst (applyLocalChange example_surface example_binding
     \<lparr>transactions = [None], docChanged = True,
      changes_u = [\<lparr>fromA = 10, toA = 10, fromB = 10, toB = 11, inserted = ''x''\<rparr>]\<rparr>) = Inr True
   \<and> console (snd (applyLocalChange example_surface example_binding
       \<lparr>transactions = [None], docChanged = True,
        changes_u = [\<lparr>fromA = 10, toA = 10, fromB = 10, toB = 11, inserted = ''x''\<rparr>]\<rparr>))
     = [LogAttached, LogSkippingEcho, LogSpliceToAutomerge 10 0 1]
   \<and> Option.bind (doc (handle (snd (applyLocalChange example_surface example_binding
       \<lparr>transactions = [None], docChanged = True,
        changes_u = [\<lparr>fromA = 10, toA = 10, fromB = 10, toB = 11, inserted = ''x''\<rparr>]\<rparr>)))) content
     = Some (CString ''0123456789x'')
   \<and> dispatched (view (snd (applyLocalChange example_surface example_binding
       \<lparr>transactions = [None], docChanged = True,
        changes_u = [\<lparr>fromA = 10, toA = 10, fromB = 10, toB = 11, inserted = ''x''\<rparr>]\<rparr>))) = []"
proof -
  let ?u = "\<lparr>transactions = [None], docChanged = True,
      changes_u = [\<lparr>fromA = 10, toA = 10, fromB = 10, toB = 11, inserted = ''x''\<rparr>]\<rparr>"
  have run: "applyLocalChange example_surface example_binding ?u
     = (Inr True,
        example_binding\<lparr>handle := (handle example_binding)
             \<lparr>doc := Some \<lparr>content = Some (CString ''0123456789x''),
                           metadata = Some \<lparr>created = 1700000000000, version = 1\<rparr>\<rparr>\<rparr>,
           console := [LogAttached, LogSkippingEcho, LogSpliceToAutomerge 10 0 1]\<rparr>)"
    by (simp add: applyLocalChange_def handle_change_def handleRemoteChange_def
        Automerge_splice_def example_binding_def attach_def new_binding_def console_log_def
        handle_on_def example_handle_def Let_def)
  have "dispatched (view example_binding) = []"
    by (simp add: example_binding_def attach_def new_binding_def console_log_def Let_def
        example_view_def)
  with echo_suppression [of example_surface example_binding ?u] run show ?thesis
    by simp
qed

text \<open>The same event with the guard clear is applied to the editor.\<close>

lemma unguarded_change_is_dispatched_example:
  "dispatched (view (snd (emit_change example_surface
      \<lparr>content = Some (CString ''0123456789x''), metadata = None\<rparr>
      (mutation_patches (Splice 10 0 ''x'')) (listeners (handle example_binding))
      example_binding)))
   = [\<lparr>changes = [\<lparr>from_c = 10, to_c = 10, insert_c = ''x''\<rparr>],
       selection_t = None, remote = True\<rparr>]"
  by (simp add: handleRemoteChange_def example_binding_def attach_def new_binding_def
      console_log_def handle_on_def example_handle_def Let_def path0_def patch_index_def
      log_remote_splices_def dispatch_def view_dispatch_def example_surface_def
      example_view_def)

text \<open>
  Claim C4 (release of the guard). A call of \<open>applyLocalChange\<close> that gets past the two
  early returns (no transaction annotated as remote, and a changed document) sets the
  guard; when the call returns, and also when it throws because \<open>handle.change\<close> threw,
  the guard is false.
\<close>

theorem guard_released:
  assumes "\<not> list_ex (\<lambda>a. a = Some True) (transactions u)" and "docChanged u"
  shows "\<not> isSyncingLocalChange (snd (applyLocalChange cm b u))"
  using assms
  by (auto simp: applyLocalChange_def Let_def split: prod.splits sum.splits)

text \<open>A range beyond the end of the document: the mutation throws, the guard is clear.\<close>

theorem guard_released_witness:
  "fst (applyLocalChange example_surface example_binding
     \<lparr>transactions = [None], docChanged = True,
      changes_u = [\<lparr>fromA = 20, toA = 25, fromB = 20, toB = 20, inserted = []\<rparr>]\<rparr>)
     = Inl (RangeError ''splice out of range'')
   \<and> \<not> isSyncingLocalChange (snd (applyLocalChange example_surface example_binding
       \<lparr>transactions = [None], docChanged = True,
        changes_u = [\<lparr>fromA = 20, toA = 25, fromB = 20, toB = 20, inserted = []\<rparr>]\<rparr>))"
proof -
  let ?u = "\<lparr>transactions = [None], docChanged = True,
      changes_u = [\<lparr>fromA = 20, toA = 25, fromB = 20, toB = 20, inserted = []\<rparr>]\<rparr>"
  have h1: "\<not> list_ex (\<lambda>a. a = Some True) (transactions ?u)" by simp
  have h2: "docChanged ?u" by simp
  have "fst (applyLocalChange example_surface example_binding ?u)
          = Inl (RangeError ''splice out of range'')"
    by (simp add: applyLocalChange_def handle_change_def Automerge_splice_def
        example_binding_def attach_def new_binding_def console_log_def handle_on_def
        example_handle_def Let_def)
  with guard_released [OF h1 h2, of example_surface example_binding] show ?thesis
    by simp
qed

section \<open>Properties of the document session\<close>

subsection \<open>Connection state\<close>

lemma connection_inv_new_session: "connection_inv (new_session url config_url backend pathname)"
  by (simp add: connection_inv_def isConnected_def new_session_def)

lemma connection_inv_closeDocument: "connection_inv s \<Longrightarrow> connection_inv (closeDocument s)"
  by (simp add: connection_inv_def isConnected_def closeDocument_def emit_def Let_def
      split: option.splits)

lemma connection_inv_connect: "connection_inv s \<Longrightarrow> connection_inv (connect s)"
  by (simp add: connection_inv_def isConnected_def connect_def emit_def)

lemma connection_inv_disconnect: "connection_inv (disconnect s)"
  by (simp add: connection_inv_def isConnected_def disconnect_def emit_def Let_def)

lemma emit_change_s_fields:
  "store (emit_change_s d ps ls s) = store s"
  "handle_s (emit_change_s d ps ls s) = handle_s s"
  "repo (emit_change_s d ps ls s) = repo s"
  "isConnected_s (emit_change_s d ps ls s) = isConnected_s s"
  by (induction d ps ls s rule: emit_change_s.induct) (simp_all add: emit_def)

lemma connection_inv_applyLocalEdit:
  "connection_inv s \<Longrightarrow> connection_inv (snd (applyLocalEdit p n t s))"
  by (auto simp: connection_inv_def isConnected_def applyLocalEdit_def handle_change_s_def
      emit_change_s_fields split: option.splits sum.splits)

lemma connection_inv_openDocument:
  "connection_inv s \<Longrightarrow> connection_inv (snd (openDocument x s))"
  by (auto simp: connection_inv_def isConnected_def openDocument_def openDocument_failed_def
      closeDocument_def setupChangeHandler_def emit_def Let_def
      split: option.splits sum.splits)

subsection \<open>Editing and reading the content\<close>

text \<open>
  Claim C2 (round-trip fidelity). A session whose active document is ready and has the
  text \<open>C\<close> as content (so that \<open>getContent()\<close> is \<open>C\<close>): for \<open>p \<ge> 0\<close>, \<open>n \<ge> 0\<close> and
  \<open>p + n \<le> length C\<close>, \<open>applyLocalEdit(p, n, t)\<close> returns normally and \<open>getContent()\<close> is
  then \<open>C[0:p] + t + C[p+n:]\<close>.
\<close>

theorem round_trip:
  assumes "handle_s s = Some h" and "store s h = Some hdl" and "doc hdl = Some d"
    and "content d = Some c"
    and "0 \<le> p" and "0 \<le> n" and "p + n \<le> int (length (content_text c))"
  shows "getContent s = content_text c
       \<and> fst (applyLocalEdit p n t s) = Inr ()
       \<and> getContent (snd (applyLocalEdit p n t s))
           = take (nat p) (getContent s) @ t @ drop (nat (p + n)) (getContent s)"
proof -
  have g: "getContent s = content_text c"
    using assms(1-4) by (cases c) (simp_all add: getContent_def)
  have sp: "Automerge_splice d p n t
      = Inr (d\<lparr>content := Some (CString (take (nat p) (content_text c) @ t
                                           @ drop (nat (p + n)) (content_text c)))\<rparr>)"
    using assms(4-7) by (simp add: Automerge_splice_def Let_def)
  show ?thesis
    using assms(1-3) g sp
    by (simp add: applyLocalEdit_def handle_change_s_def getContent_def emit_change_s_fields)
qed

text \<open>Replacing \<open>ell\<close> in \<open>hello\<close> by \<open>ipp\<close> after opening the document \<open>abc\<close>.\<close>

theorem round_trip_witness:
  "getContent (snd (openDocument ''abc'' example_session)) = ''hello''
   \<and> fst (applyLocalEdit 1 3 ''ipp'' (snd (openDocument ''abc'' example_session))) = Inr ()
   \<and> getContent (snd (applyLocalEdit 1 3 ''ipp'' (snd (openDocument ''abc'' example_session))))
       = ''hippo''"
proof -
  let ?s = "snd (openDocument ''abc'' example_session)"
  let ?d = "\<lparr>content = Some (CString ''hello''),
             metadata = Some \<lparr>created = 1700000000000, version = 1\<rparr>\<rparr>"
  let ?h = "\<lparr>documentId = ''abc'', doc = Some ?d, listeners = [SessionHandler 0]\<rparr>"
  have h1: "handle_s ?s = Some ''abc''" and h2: "store ?s ''abc'' = Some ?h"
    by (simp_all add: openDocument_def example_session_def connect_def new_session_def
        emit_def fullDocId_def startsWith_def repo_find_def example_backend_def Let_def
        setupChangeHandler_def update_handle_def handle_on_def)
  have h3: "doc ?h = Some ?d" and h4: "content ?d = Some (CString ''hello'')" by simp_all
  have h7: "1 + 3 \<le> int (length (content_text (CString ''hello'')))" by simp
  from round_trip [OF h1 h2 h3 h4 _ _ h7, of "''ipp''"] show ?thesis
    by simp
qed

subsection \<open>Creating a document\<close>

lemma createDocument_connected:
  assumes "repo s = Some r"
  shows "createDocument now nid s =
    (Inr nid,
     s\<lparr>store := (store s)(nid \<mapsto> \<lparr>documentId = nid, doc = Some (initial_doc now),
                                     listeners = [SessionHandler (closures_s s)]\<rparr>),
       handle_s := Some nid, documentId_s := Some nid,
       changeHandler_s := Some (SessionHandler (closures_s s)),
       closures_s := Suc (closures_s s),
       window_url := window_pathname s @ ''?doc='' @ nid,
       emitted := emitted s @ [DocumentReady (initial_doc now) nid True]\<rparr>)"
  using assms
  by (simp add: createDocument_def handle_change_s_def repo_create_def setupChangeHandler_def
      update_handle_def handle_on_def emit_def Let_def initial_doc_def)

lemma connection_inv_createDocument:
  "connection_inv s \<Longrightarrow> connection_inv (snd (createDocument now nid s))"
  by (cases "repo s")
     (simp_all add: createDocument_connected, simp_all add: connection_inv_def isConnected_def
        createDocument_def)

text \<open>
  Claim C7 (precondition and effect of \<open>createDocument\<close>). On a session that is not
  connected the call throws an error of the kind \<open>IllegalState\<close> and changes nothing.
  On a connected session it returns the identifier of the new handle; the session's
  handle and document id are the new document, whose content is the empty string and
  whose metadata are \<open>{created: now, version: 1}\<close>; and the one event emitted is
  \<open>document-ready\<close> with this document, the handle and \<open>isNew: true\<close>.
\<close>

theorem createDocument_spec:
  assumes "connection_inv s"
  shows "(\<not> isConnected s \<longrightarrow>
            (\<exists>e. createDocument now nid s = (Inl e, s) \<and> IllegalState e))
       \<and> (isConnected s \<longrightarrow>
            (case createDocument now nid s of
               (r, s') \<Rightarrow>
                 r = Inr nid \<and> handle_s s' = Some nid \<and> documentId_s s' = Some nid
                 \<and> store s' nid = Some \<lparr>documentId = nid, doc = Some (initial_doc now),
                                         listeners = [SessionHandler (closures_s s)]\<rparr>
                 \<and> getContent s' = []
                 \<and> emitted s' = emitted s @ [DocumentReady (initial_doc now) nid True]))"
  using assms
  by (auto simp: connection_inv_def isConnected_def createDocument_def IllegalState_def
      handle_change_s_def repo_create_def setupChangeHandler_def update_handle_def handle_on_def
      emit_def Let_def initial_doc_def getContent_def)

theorem createDocument_spec_witness:
  "createDocument 1700000000123 ''new'' (new_session None ''ws://localhost:1234'' example_backend ''/'')
     = (Inl (Error ''Not connected. Call connect() first.''),
        new_session None ''ws://localhost:1234'' example_backend ''/'')
   \<and> fst (createDocument 1700000000123 ''new'' example_session) = Inr ''new''
   \<and> handle_s (snd (createDocument 1700000000123 ''new'' example_session)) = Some ''new''
   \<and> getContent (snd (createDocument 1700000000123 ''new'' example_session)) = []
   \<and> emitted (snd (createDocument 1700000000123 ''new'' example_session))
       = [Connected,
          DocumentReady \<lparr>content = Some (CString []),
                         metadata = Some \<lparr>created = 1700000000123, version = 1\<rparr>\<rparr> ''new'' True]"
proof -
  let ?s0 = "new_session None ''ws://localhost:1234'' example_backend ''/''"
  have i0: "connection_inv ?s0" by (rule connection_inv_new_session)
  have i1: "connection_inv example_session"
    unfolding example_session_def by (rule connection_inv_connect) (rule i0)
  have n0: "\<not> isConnected ?s0" by (simp add: isConnected_def new_session_def)
  have c1: "isConnected example_session"
    by (simp add: isConnected_def example_session_def connect_def new_session_def emit_def)
  have e1: "emitted example_session = [Connected]"
    by (simp add: example_session_def connect_def new_session_def emit_def)
  from createDocument_spec [OF i0, of 1700000000123 "''new''"] n0
  have a: "createDocument 1700000000123 ''new'' ?s0
            = (Inl (Error ''Not connected. Call connect() first.''), ?s0)"
    by (auto simp: createDocument_def new_session_def)
  from createDocument_spec [OF i1, of 1700000000123 "''new''"] c1 e1
  have b: "fst (createDocument 1700000000123 ''new'' example_session) = Inr ''new''
     \<and> handle_s (snd (createDocument 1700000000123 ''new'' example_session)) = Some ''new''
     \<and> getContent (snd (createDocument 1700000000123 ''new'' example_session)) = []
     \<and> emitted (snd (createDocument 1700000000123 ''new'' example_session))
         = [Connected, DocumentReady (initial_doc 1700000000123) ''new'' True]"
    by (auto split: prod.splits)
  from a b show ?thesis by (simp add: initial_doc_def)
qed

subsection \<open>Opening a document\<close>

lemma startsWith_prefix: "startsWith (p @ s) p"
  by (simp add: startsWith_def)

text \<open>
  Claim C10 (normalisation of the identifier). For an identifier that does not begin
  with \<open>automerge:\<close>, \<open>openDocument\<close> resolves the identifier with the prefix put in front;
  for the identifier that already has the prefix it resolves that identifier unchanged;
  so the two calls resolve the same document and do the same to the session.
\<close>

theorem openDocument_prefix:
  assumes "\<not> startsWith docId ''automerge:''"
  shows "fullDocId docId = ''automerge:'' @ docId
       \<and> fullDocId (''automerge:'' @ docId) = ''automerge:'' @ docId
       \<and> openDocument docId s = openDocument (''automerge:'' @ docId) s"
proof -
  have a: "fullDocId docId = ''automerge:'' @ docId"
    using assms by (simp add: fullDocId_def)
  have b: "fullDocId (''automerge:'' @ docId) = ''automerge:'' @ docId"
    using startsWith_prefix [of "''automerge:''" docId] by (simp only: fullDocId_def if_True)
  show ?thesis
    by (simp only: a b openDocument_def)
qed

theorem openDocument_prefix_witness:
  "fullDocId ''abc'' = ''automerge:abc''
   \<and> openDocument ''abc'' example_session = openDocument ''automerge:abc'' example_session
   \<and> fst (openDocument ''abc'' example_session) = Inr ()
   \<and> handle_s (snd (openDocument ''automerge:abc'' example_session)) = Some ''abc''"
proof -
  have h: "\<not> startsWith ''abc'' ''automerge:''" by (simp add: startsWith_def)
  have r: "fst (openDocument ''abc'' example_session) = Inr ()
           \<and> handle_s (snd (openDocument ''abc'' example_session)) = Some ''abc''"
    by (simp add: openDocument_def example_session_def connect_def new_session_def
        emit_def fullDocId_def startsWith_def repo_find_def example_backend_def Let_def
        setupChangeHandler_def update_handle_def handle_on_def)
  from openDocument_prefix [OF h, of example_session] r show ?thesis
    by simp
qed

subsection \<open>Creating, then opening\<close>

lemma handle_change_s_no_listeners:
  "map_option listeners (store s h) = Some [] \<Longrightarrow>
   emitted (snd (handle_change_s m h s)) = emitted s"
  by (auto simp: handle_change_s_def split: option.splits sum.splits)

lemma create_then_open_state:
  assumes "repo s = Some r" and "store s nid = None"
    and "store s xid = Some hx" and "doc hx = Some dx"
    and "fullDocId x = ''automerge:'' @ xid"
  shows "openDocument x (snd (createDocument now nid s)) =
    (Inr (),
     s\<lparr>store := (store s)(nid \<mapsto> \<lparr>documentId = nid, doc = Some (initial_doc now),
                                     listeners = []\<rparr>,
                         xid \<mapsto> hx\<lparr>listeners := listeners hx
                                        @ [SessionHandler (Suc (closures_s s))]\<rparr>),
       handle_s := Some xid, documentId_s := Some (documentId hx),
       changeHandler_s := Some (SessionHandler (Suc (closures_s s))),
       closures_s := Suc (Suc (closures_s s)),
       window_url := window_pathname s @ ''?doc='' @ nid,
       emitted := emitted s @ [DocumentReady (initial_doc now) nid True, DocumentClosed,
                               DocumentReady dx xid False]\<rparr>)"
proof -
  from assms(2,3) have ne: "xid \<noteq> nid" by auto
  show ?thesis
    using assms ne
    by (simp add: createDocument_connected openDocument_def closeDocument_def repo_find_def
        startsWith_def setupChangeHandler_def update_handle_def handle_on_def handle_off_def
        emit_def Let_def)
qed

text \<open>
  What the sequence does on any connected session. \<open>createDocument()\<close> (the engine
  giving a new identifier \<open>nid\<close>) followed by \<open>openDocument(x)\<close>, where \<open>x\<close> names a ready
  document \<open>xid\<close> of the engine, with or without the \<open>automerge:\<close> prefix: both calls
  succeed; the session's one handle is the created document after the first call and
  \<open>xid\<close> after the second; the created document has no callback left, so that a later
  change of it emits nothing on the session; the session's new change handler is
  registered on \<open>xid\<close>; the events are \<open>document-ready\<close> (new), \<open>document-closed\<close>,
  \<open>document-ready\<close> (\<open>xid\<close>). That \<open>xid\<close> is the only document with a change handler of
  the session afterwards holds when no document had one before, and not in general.
\<close>

theorem create_then_open:
  assumes "repo s \<noteq> None" and "store s nid = None"
    and "store s xid = Some hx" and "doc hx = Some dx"
    and "fullDocId x = ''automerge:'' @ xid"
  shows "(case createDocument now nid s of
            (r1, s1) \<Rightarrow>
              (case openDocument x s1 of
                 (r2, s2) \<Rightarrow>
                   r1 = Inr nid \<and> handle_s s1 = Some nid \<and> r2 = Inr ()
                   \<and> handle_s s2 = Some xid \<and> documentId_s s2 = Some (documentId hx)
                   \<and> changeHandler_s s2 = Some (SessionHandler (Suc (closures_s s)))
                   \<and> map_option listeners (store s2 nid) = Some []
                   \<and> map_option listeners (store s2 xid)
                       = Some (listeners hx @ [SessionHandler (Suc (closures_s s))])
                   \<and> emitted s2 = emitted s @ [DocumentReady (initial_doc now) nid True,
                                                 DocumentClosed, DocumentReady dx xid False]
                   \<and> (\<forall>m. emitted (snd (handle_change_s m nid s2)) = emitted s2)
                   \<and> ((\<forall>h. \<not> subscribed s h) \<longrightarrow> (\<forall>h. subscribed s2 h \<longleftrightarrow> h = xid))))"
proof -
  from assms(1) obtain r where r: "repo s = Some r" by auto
  from assms(2,3) have ne: "xid \<noteq> nid" by auto
  note st = create_then_open_state [OF r assms(2-5), of now]
  obtain s2 where s2: "openDocument x (snd (createDocument now nid s)) = (Inr (), s2)"
    and f: "handle_s s2 = Some xid" "documentId_s s2 = Some (documentId hx)"
      "changeHandler_s s2 = Some (SessionHandler (Suc (closures_s s)))"
      "store s2 = (store s)(nid \<mapsto> \<lparr>documentId = nid, doc = Some (initial_doc now),
                                       listeners = []\<rparr>,
                           xid \<mapsto> hx\<lparr>listeners := listeners hx
                                          @ [SessionHandler (Suc (closures_s s))]\<rparr>)"
      "emitted s2 = emitted s @ [DocumentReady (initial_doc now) nid True, DocumentClosed,
                                 DocumentReady dx xid False]"
    using st by simp
  have l1: "map_option listeners (store s2 nid) = Some []" using f(4) ne by simp
  have l2: "map_option listeners (store s2 xid)
            = Some (listeners hx @ [SessionHandler (Suc (closures_s s))])"
    using f(4) by simp
  have quiet: "\<forall>m. emitted (snd (handle_change_s m nid s2)) = emitted s2"
    using handle_change_s_no_listeners [OF l1] by simp
  have one: "(\<forall>h. \<not> subscribed s h) \<longrightarrow> (\<forall>h. subscribed s2 h \<longleftrightarrow> h = xid)"
  proof (intro impI allI)
    fix h assume a: "\<forall>h. \<not> subscribed s h"
    show "subscribed s2 h \<longleftrightarrow> h = xid"
    proof (cases "h = xid")
      case True
      then show ?thesis using f(4) by (simp add: subscribed_def is_session_handler_def)
    next
      case False
      show ?thesis
      proof (cases "h = nid")
        case True
        then show ?thesis using f(4) ne by (simp add: subscribed_def)
      next
        case n: False
        from a have "\<not> subscribed s h" by simp
        with False n f(4) show ?thesis by (simp add: subscribed_def)
      qed
    qed
  qed
  show ?thesis
    using s2 f(1,2,3,5) l1 l2 quiet one
    by (simp add: createDocument_connected [OF r])
qed

lemma create_then_open_example:
  "(case createDocument 1700000000123 ''new'' example_session of
      (r1, s1) \<Rightarrow>
        (case openDocument ''abc'' s1 of
           (r2, s2) \<Rightarrow>
             r1 = Inr ''new'' \<and> r2 = Inr () \<and> handle_s s2 = Some ''abc''
             \<and> map_option listeners (store s2 ''new'') = Some []
             \<and> map_option listeners (store s2 ''abc'') = Some [SessionHandler 1]
             \<and> subscribed s2 ''abc'' \<and> \<not> subscribed s2 ''new''
             \<and> emitted (snd (handle_change_s (Splice 0 0 ''x'') ''new'' s2)) = emitted s2))"
proof -
  let ?dx = "\<lparr>content = Some (CString ''hello''),
              metadata = Some \<lparr>created = 1700000000000, version = 1\<rparr>\<rparr>"
  let ?hx = "\<lparr>documentId = ''abc'', doc = Some ?dx, listeners = []\<rparr>"
  have st: "store example_session = example_backend" "closures_s example_session = 0"
    by (simp_all add: example_session_def connect_def new_session_def emit_def)
  have h1: "repo example_session \<noteq> None"
    by (simp add: example_session_def connect_def new_session_def emit_def)
  have h2: "store example_session ''new'' = None"
    by (simp add: st example_backend_def)
  have h3: "store example_session ''abc'' = Some ?hx"
    by (simp add: st example_backend_def)
  have h4: "doc ?hx = Some ?dx" by simp
  have h5: "fullDocId ''abc'' = ''automerge:'' @ ''abc''"
    by (simp add: fullDocId_def startsWith_def)
  have none: "\<forall>h. \<not> subscribed example_session h"
    by (simp add: subscribed_def st example_backend_def)
  obtain r1 s1 where c: "createDocument 1700000000123 ''new'' example_session = (r1, s1)"
    by (cases "createDocument 1700000000123 ''new'' example_session")
  obtain r2 s2 where o: "openDocument ''abc'' s1 = (r2, s2)"
    by (cases "openDocument ''abc'' s1")
  from create_then_open [OF h1 h2 h3 h4 h5, of 1700000000123]
  have F: "r1 = Inr ''new''" "r2 = Inr ()" "handle_s s2 = Some ''abc''"
      "map_option listeners (store s2 ''new'') = Some []"
      "map_option listeners (store s2 ''abc'') = Some [SessionHandler 1]"
      "\<forall>m. emitted (snd (handle_change_s m ''new'' s2)) = emitted s2"
      "(\<forall>h. \<not> subscribed example_session h) \<longrightarrow> (\<forall>h. subscribed s2 h \<longleftrightarrow> h = ''abc'')"
    unfolding c o prod.case by (simp_all add: st(2))
  from F(7) none have sub: "subscribed s2 ''abc''" "\<not> subscribed s2 ''new''"
    by simp_all
  from F(6) have q: "emitted (snd (handle_change_s (Splice 0 0 ''x'') ''new'' s2)) = emitted s2"
    by (rule spec)
  show ?thesis
    unfolding c o prod.case using F(1-5) sub q by (intro conjI)
qed

subsection \<open>A document open before \<open>createDocument\<close>\<close>

text \<open>
  \<open>openDocument\<close> closes the active document before it resolves the new one;
  \<open>createDocument\<close> does not. It replaces \<open>this.handle\<close>, and \<open>_setupChangeHandler\<close>
  replaces \<open>this._changeHandler\<close>, so the closure registered on the earlier handle can no
  longer be removed by \<open>closeDocument\<close> and keeps emitting \<open>remote-change\<close>.
\<close>

lemma subscribed_createDocument:
  assumes "repo s \<noteq> None" and "subscribed s h" and "h \<noteq> nid"
  shows "subscribed (snd (createDocument now nid s)) h"
proof -
  from assms(1) obtain r where r: "repo s = Some r" by auto
  from assms(2,3) show ?thesis
    by (simp add: createDocument_connected [OF r] subscribed_def)
qed

lemma createDocument_twice_example:
  "map_option listeners
     (store (snd (createDocument 2 ''n2'' (snd (createDocument 1 ''n1'' example_session)))) ''n1'')
   = Some [SessionHandler 0]"
proof -
  have r: "repo example_session = Some ''ws://localhost:1234''"
    by (simp add: example_session_def connect_def new_session_def emit_def)
  have c: "closures_s example_session = 0"
    by (simp add: example_session_def connect_def new_session_def emit_def)
  show ?thesis
    by (simp add: createDocument_connected [OF r] createDocument_connected [where r = "''ws://localhost:1234''"] r c)
qed

lemma example_session_open_state:
  "repo example_session_open = Some ''ws://localhost:1234''"
  "handle_s example_session_open = Some ''abc''"
  "changeHandler_s example_session_open = Some (SessionHandler 0)"
  "closures_s example_session_open = 1"
  "store example_session_open =
     example_backend_two(''abc'' \<mapsto> \<lparr>documentId = ''abc'',
                   doc = Some \<lparr>content = Some (CString ''hello''),
                               metadata = Some \<lparr>created = 1700000000000, version = 1\<rparr>\<rparr>,
                   listeners = [SessionHandler 0]\<rparr>)"
  by (simp_all add: example_session_open_def openDocument_def connect_def new_session_def
      emit_def fullDocId_def startsWith_def repo_find_def example_backend_two_def Let_def
      setupChangeHandler_def update_handle_def handle_on_def)

text \<open>
  Claim C5 (mutual exclusivity of create/open): on every session, \<open>createDocument()\<close>
  followed by \<open>openDocument(x)\<close> is to end with exactly one active document, \<open>x\<close>, no
  event of an abandoned document being delivered any more, and at most one document
  being open per session at any time. The code does not do this on a session that has a
  document open when \<open>createDocument\<close> is called. On the session that has opened \<open>abc\<close>,
  \<open>createDocument()\<close> and then \<open>openDocument('xyz')\<close> both succeed and the handle is
  \<open>xyz\<close>; the created document has lost its change handler, but \<open>abc\<close> still has the one
  registered when it was opened: two documents have a change handler of the session,
  and an edit of \<open>abc\<close> is still emitted as \<open>remote-change\<close>.
\<close>

theorem create_then_open_earlier_document_stays_subscribed:
  "(case createDocument 1700000000123 ''new'' example_session_open of
      (r1, s1) \<Rightarrow>
        (case openDocument ''xyz'' s1 of
           (r2, s2) \<Rightarrow>
             handle_s example_session_open = Some ''abc''
             \<and> r1 = Inr ''new'' \<and> r2 = Inr () \<and> handle_s s2 = Some ''xyz''
             \<and> map_option listeners (store s2 ''new'') = Some []
             \<and> map_option listeners (store s2 ''xyz'') = Some [SessionHandler 2]
             \<and> map_option listeners (store s2 ''abc'') = Some [SessionHandler 0]
             \<and> subscribed s2 ''xyz'' \<and> subscribed s2 ''abc''
             \<and> emitted (snd (handle_change_s (Splice 5 0 ''!'') ''abc'' s2))
                 = emitted s2
                   @ [RemoteChange \<lparr>content = Some (CString ''hello!''),
                                    metadata = Some \<lparr>created = 1700000000000, version = 1\<rparr>\<rparr>
                        [\<lparr>path = [PStr ''content'', PNum 5], action = ''splice'',
                          length_p = Some 0, value_p = Some ''!''\<rparr>]]))"
proof -
  note st = example_session_open_state
  have c: "createDocument 1700000000123 ''new'' example_session_open =
    (Inr ''new'',
     example_session_open\<lparr>store := (store example_session_open)(''new'' \<mapsto>
           \<lparr>documentId = ''new'', doc = Some (initial_doc 1700000000123),
            listeners = [SessionHandler 1]\<rparr>),
       handle_s := Some ''new'', documentId_s := Some ''new'',
       changeHandler_s := Some (SessionHandler 1),
       closures_s := Suc 1,
       window_url := window_pathname example_session_open @ ''?doc='' @ ''new'',
       emitted := emitted example_session_open
                  @ [DocumentReady (initial_doc 1700000000123) ''new'' True]\<rparr>)"
    using createDocument_connected [OF st(1), of 1700000000123 "''new''"] by (simp add: st(4))
  show ?thesis
    unfolding c prod.case
    by (simp add: st openDocument_def closeDocument_def repo_find_def fullDocId_def
        startsWith_def setupChangeHandler_def update_handle_def handle_on_def handle_off_def
        emit_def Let_def example_backend_two_def subscribed_def is_session_handler_def
        handle_change_s_def Automerge_splice_def)
qed

end
